theory Spec2Isabelle
  imports Complex_Main "HOL-Library.Sublist"
begin

section \<open>ChewyTask: schedules, entries, executor and scheduler\<close>

text \<open>
  A shallow embedding of \<^verbatim>\<open>chewy_task/schedules.py\<close>, \<^verbatim>\<open>task.py\<close>,
  \<^verbatim>\<open>executor.py\<close>, \<^verbatim>\<open>scheduler.py\<close> and the submission path of
  \<^verbatim>\<open>app.py\<close>.

  Conventions of the embedding.
  \<^item> Python numbers that hold times and intervals are finite doubles, taken as the
    \<open>real\<close> numbers they denote. Comparison and \<open>min\<close> are exact; \<open>+\<close> and \<open>-\<close> round
    their exact result to the nearest double (\<open>float_add\<close>, \<open>float_sub\<close> below).
    Infinities, NaN and overflow are outside the model.
  \<^item> A method that mutates \<open>self\<close> takes the object and returns the updated one.
  \<^item> A method that may raise returns \<open>error + 'a\<close> together with the state reached
    when the exception leaves the method: what was mutated or logged before a raise stays.
  \<^item> \<open>time.time()\<close> and \<open>concurrent.futures\<close> are outside the repository; they are the
    parameters collected in the record \<open>env\<close>.
  \<^item> The logger is a list of records, appended to in call order, whatever the level the
    handlers print at.
  \<^item> Positional and keyword arguments are payloads that the code passes on with
    \<open>*args, **kwargs\<close>. A keyword that names a parameter the call has already filled by
    position raises \<open>TypeError\<close> before the body of the callee runs (\<open>bound_twice\<close>
    below).
  \<^item> Threads are not modelled: one caller at a time runs the methods below, and the body
    of a submitted task (\<open>Task.run\<close> on a worker) is not executed; a pool records the
    jobs it accepted, in order.
\<close>

subsection \<open>Payloads, tasks and errors\<close>

datatype pyval = NoneV | IntV int | StrV string

type_synonym args = "pyval list"
type_synonym kwargs = "(string \<times> pyval) list"

text \<open>A Python function object, as far as the code reads it: its \<open>__name__\<close>.\<close>

datatype callable = Callable string

fun dunder_name :: "callable \<Rightarrow> string" where
  "dunder_name (Callable n) = n"

text \<open>
  \<open>Task\<close>: \<open>app\<close> is a reference to the owning \<open>ChewyTask\<close> object (an address in the
  store of applications below), or \<open>None\<close>.
\<close>

record Task =
  func :: callable
  name :: string
  app :: "nat option"

text \<open>\<open>Task.__init__\<close>: \<open>self.name = name or func.__name__\<close> (an empty name is falsy).\<close>

definition Task_init :: "callable \<Rightarrow> string option \<Rightarrow> nat option \<Rightarrow> Task" where
  "Task_init f n a =
     \<lparr>func = f,
      name = (case n of None \<Rightarrow> dunder_name f
              | Some s \<Rightarrow> if s = [] then dunder_name f else s),
      app = a\<rparr>"

text \<open>
  The exceptions of the repository, one constructor per \<open>raise\<close>, and the exceptions that
  come out of \<open>concurrent.futures\<close> (with their text).
  \<^item> \<open>IntervalNotPositive i\<close>: \<open>ValueError("Interval must be greater than 0, got {i}")\<close>;
  \<^item> \<open>TaskNotBound n\<close>: \<open>RuntimeError("Task '{n}' is not bound to any ChewyTask application. ...")\<close>;
  \<^item> \<open>SchedulerNotInitialized\<close>: \<open>RuntimeError("Scheduler not initialized")\<close>;
  \<^item> \<open>NoPoolAttribute\<close>: the \<open>AttributeError\<close> of \<open>None.submit\<close>;
  \<^item> \<open>MultipleValues f p\<close>: \<open>TypeError("f() got multiple values for argument 'p'")\<close>,
    raised by the call itself;
  \<^item> \<open>BackendError m\<close>: an exception raised inside \<open>concurrent.futures\<close>.
\<close>

datatype error =
    IntervalNotPositive real
  | TaskNotBound string
  | SchedulerNotInitialized
  | NoPoolAttribute
  | MultipleValues string string
  | BackendError string

text \<open>
  Binding \<open>**kwargs\<close> in a call whose positional arguments have filled the parameters
  \<open>params\<close>: Python takes the keywords in the order of the dictionary, and the first one
  that names such a parameter raises the \<open>TypeError\<close>. \<open>None\<close>: every keyword goes to the
  \<open>**kwargs\<close> of the callee.
\<close>

fun bound_twice :: "string list \<Rightarrow> kwargs \<Rightarrow> string option" where
  "bound_twice params [] = None"
| "bound_twice params ((key, v) # kw) =
     (if key \<in> set params then Some key else bound_twice params kw)"

subsection \<open>Arithmetic on doubles\<close>

text \<open>
  A double has a significand of 53 bits. \<open>double_of x\<close> is the double nearest to the real
  \<open>x\<close>, ties going to the even significand: with \<open>2 ^ k \<le> |x| < 2 ^ (k + 1)\<close> the doubles
  around \<open>x\<close> are the multiples of \<open>2 ^ (k - 52)\<close>. The exponent is not bounded here: the
  sum or difference of two doubles that does not overflow is rounded as the hardware
  rounds it.
\<close>

definition round_half_even :: "real \<Rightarrow> int" where
  "round_half_even y =
     (let f = \<lfloor>y\<rfloor>; d = y - of_int f
      in if d < 1 / 2 then f else if 1 / 2 < d then f + 1 else if even f then f else f + 1)"

definition ulp_exponent :: "real \<Rightarrow> int" where
  "ulp_exponent x = \<lfloor>log 2 \<bar>x\<bar>\<rfloor> - 52"

definition double_of :: "real \<Rightarrow> real" where
  "double_of x =
     (if x = 0 then 0
      else of_int (round_half_even (x / 2 powi ulp_exponent x)) * 2 powi ulp_exponent x)"

text \<open>Python's \<open>a + b\<close> and \<open>a - b\<close> on floats.\<close>

definition float_add :: "real \<Rightarrow> real \<Rightarrow> real" where
  "float_add a b = double_of (a + b)"

definition float_sub :: "real \<Rightarrow> real \<Rightarrow> real" where
  "float_sub a b = double_of (a - b)"


subsection \<open>schedules.py\<close>

record IntervalSchedule =
  interval :: real

text \<open>\<open>IntervalSchedule.__init__\<close>: \<open>if interval <= 0: raise ValueError(...)\<close>.\<close>

definition IntervalSchedule_init :: "real \<Rightarrow> error + IntervalSchedule" where
  "IntervalSchedule_init i =
     (if i \<le> 0 then Inl (IntervalNotPositive i) else Inr \<lparr>interval = i\<rparr>)"

subsection \<open>The world outside the objects: clock and logger\<close>

datatype level = DEBUG | INFO | WARNING | ERROR

datatype executor_kind = ThreadExecutor | ProcessExecutor

text \<open>
  The log messages of the modules, one constructor per format string:
  \<^item> executor.py: \<open>"{cls} started with {max_workers or 'auto'} workers"\<close>,
    \<open>"Failed to submit task: {e}"\<close>, \<open>"Shutting down {cls}..."\<close>,
    \<open>"Error during executor shutdown: {e}"\<close>;
  \<^item> scheduler.py: \<open>"Scheduled task added: {name} - {schedule}"\<close>,
    \<open>"Instant task submitted: {name}"\<close>, \<open>"Running scheduled task: {name}"\<close>,
    \<open>"Failed to submit scheduled task {name}: {e}"\<close>,
    \<open>"Processing instant task from queue: {name}"\<close>,
    \<open>"Failed to submit instant task {name}: {e}"\<close>, \<open>"Shutting down scheduler..."\<close>,
    \<open>"Scheduler shutdown complete"\<close>;
  \<^item> app.py: \<open>"Scheduler initialized"\<close>.
\<close>

datatype message =
    ExecutorStarted executor_kind "int option"
  | FailedToSubmitTask error
  | ShuttingDownExecutor executor_kind
  | ErrorDuringExecutorShutdown error
  | ScheduledTaskAdded string IntervalSchedule
  | InstantTaskSubmitted string
  | RunningScheduledTask string
  | FailedToSubmitScheduledTask string error
  | ProcessingInstantTask string
  | FailedToSubmitInstantTask string error
  | ShuttingDownScheduler
  | SchedulerShutdownComplete
  | SchedulerInitialized

record world =
  logged :: "(level \<times> message) list"
  clock_reads :: nat

definition logger :: "level \<Rightarrow> message \<Rightarrow> world \<Rightarrow> world" where
  "logger l m w = w\<lparr>logged := logged w @ [(l, m)]\<rparr>"

subsection \<open>The pool of concurrent.futures\<close>

record job =
  job_task :: Task
  job_args :: args
  job_kwargs :: kwargs

text \<open>A pool (\<open>ThreadPoolExecutor\<close> or \<open>ProcessPoolExecutor\<close>) with the jobs it accepted.\<close>

record pool =
  pool_kind :: executor_kind
  pool_workers :: "int option"
  accepted :: "job list"

text \<open>The \<open>Future\<close> a pool returns: the position of the job in the pool, and the job.\<close>

datatype Future = Future nat job

text \<open>
  The environment: the \<open>n\<close>-th call of \<open>time.time()\<close> returns \<open>time_at n\<close>; the
  constructor of a pool, \<open>pool.submit\<close> and \<open>pool.shutdown\<close> raise when the
  corresponding field gives the text of an exception.
\<close>

record env =
  time_at :: "nat \<Rightarrow> real"
  pool_create_error :: "executor_kind \<Rightarrow> int option \<Rightarrow> string option"
  pool_submit_error :: "pool \<Rightarrow> job \<Rightarrow> string option"
  pool_shutdown_error :: "pool \<Rightarrow> bool \<Rightarrow> string option"

definition time_time :: "env \<Rightarrow> world \<Rightarrow> real \<times> world" where
  "time_time E w = (time_at E (clock_reads w), w\<lparr>clock_reads := Suc (clock_reads w)\<rparr>)"

definition pool_new :: "env \<Rightarrow> executor_kind \<Rightarrow> int option \<Rightarrow> error + pool" where
  "pool_new E k mw =
     (case pool_create_error E k mw of
        Some m \<Rightarrow> Inl (BackendError m)
      | None \<Rightarrow> Inr \<lparr>pool_kind = k, pool_workers = mw, accepted = []\<rparr>)"

definition pool_submit :: "env \<Rightarrow> pool \<Rightarrow> job \<Rightarrow> error + (Future \<times> pool)" where
  "pool_submit E p j =
     (case pool_submit_error E p j of
        Some m \<Rightarrow> Inl (BackendError m)
      | None \<Rightarrow> Inr (Future (length (accepted p)) j, p\<lparr>accepted := accepted p @ [j]\<rparr>))"

subsection \<open>task.py: TaskEntry\<close>

record TaskEntry =
  entry_id :: string
  task :: Task
  schedule :: IntervalSchedule
  args :: args
  kwargs :: kwargs
  last_run_at :: "real option"

text \<open>
  \<open>TaskEntry.__init__\<close>: the identifier is \<open>str(uuid4())\<close>, taken here as an argument;
  \<open>args or []\<close>, \<open>kwargs or {}\<close>; never run yet.
\<close>

definition TaskEntry_init ::
  "string \<Rightarrow> Task \<Rightarrow> IntervalSchedule \<Rightarrow> args option \<Rightarrow> kwargs option \<Rightarrow> TaskEntry" where
  "TaskEntry_init uuid t s a k =
     \<lparr>entry_id = uuid, task = t, schedule = s,
      args = (case a of None \<Rightarrow> [] | Some xs \<Rightarrow> xs),
      kwargs = (case k of None \<Rightarrow> [] | Some kv \<Rightarrow> kv),
      last_run_at = None\<rparr>"

text \<open>
  \<open>TaskEntry.is_due\<close>: reads the clock first, then
  \<^verbatim>\<open>
  if self.last_run_at is None: return True, self.schedule.interval
  next_run = self.last_run_at + self.schedule.interval
  remaining = next_run - now
  if remaining <= 0: return True, self.schedule.interval
  return False, remaining
  \<close>
\<close>

definition is_due :: "env \<Rightarrow> TaskEntry \<Rightarrow> world \<Rightarrow> (bool \<times> real) \<times> world" where
  "is_due E e w =
     (let (now, w1) = time_time E w in
      case last_run_at e of
        None \<Rightarrow> ((True, interval (schedule e)), w1)
      | Some t0 \<Rightarrow>
          (let next_run = float_add t0 (interval (schedule e));
               remaining = float_sub next_run now
           in if remaining \<le> 0 then ((True, interval (schedule e)), w1)
              else ((False, remaining), w1)))"

subsection \<open>executor.py\<close>

text \<open>
  \<open>BaseExecutor\<close>: \<open>kind\<close> is the subclass (it decides which pool
  \<open>_create_executor\<close> builds), \<open>pool\<close> is the attribute \<open>_executor\<close>.
\<close>

record BaseExecutor =
  kind :: executor_kind
  max_workers :: "int option"
  pool :: "pool option"

definition BaseExecutor_init :: "executor_kind \<Rightarrow> int option \<Rightarrow> BaseExecutor" where
  "BaseExecutor_init k mw = \<lparr>kind = k, max_workers = mw, pool = None\<rparr>"

text \<open>\<open>create_executor(threading, max_workers)\<close>, the factory.\<close>

definition create_executor :: "bool \<Rightarrow> int option \<Rightarrow> BaseExecutor" where
  "create_executor threading mw =
     (if threading then BaseExecutor_init ThreadExecutor mw
      else BaseExecutor_init ProcessExecutor mw)"

text \<open>
  \<open>BaseExecutor.start\<close>:
  \<^verbatim>\<open>
  if self._executor is None:
      self._executor = self._create_executor()
      logger.info(...)
  \<close>
  An exception of the pool's constructor leaves the method.
\<close>

definition start :: "env \<Rightarrow> BaseExecutor \<Rightarrow> world \<Rightarrow> (error + unit) \<times> BaseExecutor \<times> world" where
  "start E ex w =
     (case pool ex of
        Some p \<Rightarrow> (Inr (), ex, w)
      | None \<Rightarrow>
          (case pool_new E (kind ex) (max_workers ex) of
             Inl err \<Rightarrow> (Inl err, ex, w)
           | Inr p \<Rightarrow>
               (Inr (), ex\<lparr>pool := Some p\<rparr>,
                logger INFO (ExecutorStarted (kind ex) (max_workers ex)) w)))"

text \<open>
  \<open>BaseExecutor.submit\<close>:
  \<^verbatim>\<open>
  if self._executor is None:
      self.start()
  try:
      future = self._executor.submit(fn, *args, **kwargs)
      return future
  except Exception as e:
      logger.error(f"Failed to submit task: {e}", exc_info=True)
      raise
  \<close>
  \<open>self.start()\<close> stands outside the \<open>try\<close>: its exception is not logged here. The
  callers pass \<open>fn\<close> by position and the arguments of the job as \<open>*args, **kwargs\<close>: a
  keyword \<open>self\<close> or \<open>fn\<close> among them makes the call raise.
\<close>

definition submit :: "env \<Rightarrow> BaseExecutor \<Rightarrow> job \<Rightarrow> world \<Rightarrow> (error + Future) \<times> BaseExecutor \<times> world" where
  "submit E ex j w =
     (case bound_twice [''self'', ''fn''] (job_kwargs j) of
        Some key \<Rightarrow> (Inl (MultipleValues ''submit'' key), ex, w)
      | None \<Rightarrow>
          (let (started, ex1, w1) =
                 (if pool ex = None then start E ex w else (Inr (), ex, w))
           in case started of
                Inl err \<Rightarrow> (Inl err, ex1, w1)
              | Inr u \<Rightarrow>
                  (case pool ex1 of
                     None \<Rightarrow>
                       (Inl NoPoolAttribute, ex1,
                        logger ERROR (FailedToSubmitTask NoPoolAttribute) w1)
                   | Some p \<Rightarrow>
                       (case pool_submit E p j of
                          Inl err \<Rightarrow> (Inl err, ex1, logger ERROR (FailedToSubmitTask err) w1)
                        | Inr (future, p') \<Rightarrow>
                            (Inr future, ex1\<lparr>pool := Some p'\<rparr>, w1)))))"

text \<open>
  \<open>BaseExecutor.shutdown(wait, timeout)\<close>:
  \<^verbatim>\<open>
  if self._executor is not None:
      logger.info(...)
      try:
          self._executor.shutdown(wait=wait)
      except Exception as e:
          logger.error(...)
      finally:
          self._executor = None
  \<close>
  \<open>timeout\<close> is not read.
\<close>

definition shutdown :: "env \<Rightarrow> BaseExecutor \<Rightarrow> bool \<Rightarrow> world \<Rightarrow> BaseExecutor \<times> world" where
  "shutdown E ex wait w =
     (case pool ex of
        None \<Rightarrow> (ex, w)
      | Some p \<Rightarrow>
          (let w1 = logger INFO (ShuttingDownExecutor (kind ex)) w;
               w2 = (case pool_shutdown_error E p wait of
                       Some m \<Rightarrow> logger ERROR (ErrorDuringExecutorShutdown (BackendError m)) w1
                     | None \<Rightarrow> w1)
           in (ex\<lparr>pool := None\<rparr>, w2)))"

text \<open>The jobs the executor's current pool has accepted (none without a pool).\<close>

definition accepted_jobs :: "BaseExecutor \<Rightarrow> job list" where
  "accepted_jobs ex = (case pool ex of None \<Rightarrow> [] | Some p \<Rightarrow> accepted p)"

subsection \<open>scheduler.py\<close>

text \<open>
  A Python \<open>dict\<close> keeps its keys in insertion order, and \<open>d[k] = v\<close> on a key that is
  present replaces the value where it stands: an association list updated in place.
\<close>

fun dict_set :: "'k \<Rightarrow> 'v \<Rightarrow> ('k \<times> 'v) list \<Rightarrow> ('k \<times> 'v) list" where
  "dict_set k v [] = [(k, v)]"
| "dict_set k v ((k', v') # d) = (if k' = k then (k, v) # d else (k', v') # dict_set k v d)"

text \<open>
  \<open>Scheduler\<close>: \<open>instant_queue\<close> is the \<open>queue.Queue\<close>, oldest item first. The attribute
  \<open>_scheduler_thread\<close> belongs to the threads, which are not modelled.
\<close>

record Scheduler =
  executor :: BaseExecutor
  scheduled_entries :: "(string \<times> TaskEntry) list"
  instant_queue :: "(Task \<times> args \<times> kwargs) list"
  running :: bool

definition Scheduler_init :: "BaseExecutor \<Rightarrow> Scheduler" where
  "Scheduler_init ex =
     \<lparr>executor = ex, scheduled_entries = [], instant_queue = [], running = False\<rparr>"

definition add_scheduled_task :: "Scheduler \<Rightarrow> TaskEntry \<Rightarrow> world \<Rightarrow> Scheduler \<times> world" where
  "add_scheduled_task s e w =
     (s\<lparr>scheduled_entries := dict_set (entry_id e) e (scheduled_entries s)\<rparr>,
      logger INFO (ScheduledTaskAdded (name (task e)) (schedule e)) w)"

text \<open>The call \<open>executor.submit(task.run, *args, **kwargs)\<close> hands over this job.\<close>

definition run_job :: "Task \<Rightarrow> args \<Rightarrow> kwargs \<Rightarrow> job" where
  "run_job t a k = \<lparr>job_task = t, job_args = a, job_kwargs = k\<rparr>"

text \<open>
  \<open>Scheduler.submit_instant_task\<close>:
  \<^verbatim>\<open>
  future = self.executor.submit(task.run, *args, **kwargs)
  logger.debug(f"Instant task submitted: {task.name}")
  return future
  \<close>
  Its signature is \<open>(self, task, *args, **kwargs)\<close>: called with a keyword \<open>self\<close> or
  \<open>task\<close> it raises before its body runs.
\<close>

definition submit_instant_task ::
  "env \<Rightarrow> Scheduler \<Rightarrow> Task \<Rightarrow> args \<Rightarrow> kwargs \<Rightarrow> world \<Rightarrow> (error + Future) \<times> Scheduler \<times> world" where
  "submit_instant_task E s t a k w =
     (case bound_twice [''self'', ''task''] k of
        Some key \<Rightarrow> (Inl (MultipleValues ''submit_instant_task'' key), s, w)
      | None \<Rightarrow>
          (case submit E (executor s) (run_job t a k) w of
             (Inl err, ex', w') \<Rightarrow> (Inl err, s\<lparr>executor := ex'\<rparr>, w')
           | (Inr future, ex', w') \<Rightarrow>
               (Inr future, s\<lparr>executor := ex'\<rparr>,
                logger DEBUG (InstantTaskSubmitted (name t)) w')))"

text \<open>
  The body of the first loop of \<open>Scheduler.tick\<close>, for one entry, up to the value of
  \<open>remaining\<close>:
  \<^verbatim>\<open>
  due, remaining = entry.is_due()
  if due:
      logger.info(f"Running scheduled task: {entry.task.name}")
      try:
          self.executor.submit(entry.task.run, *entry.args, **entry.kwargs)
          entry.last_run_at = time.time()
      except Exception as e:
          logger.error(f"Failed to submit scheduled task {entry.task.name}: {e}", exc_info=True)
  \<close>
\<close>

definition tick_entry ::
  "env \<Rightarrow> TaskEntry \<Rightarrow> BaseExecutor \<Rightarrow> world \<Rightarrow> TaskEntry \<times> real \<times> BaseExecutor \<times> world" where
  "tick_entry E e ex w =
     (let ((due, remaining), w1) = is_due E e w in
      if due then
        (let w2 = logger INFO (RunningScheduledTask (name (task e))) w1 in
         case submit E ex (run_job (task e) (args e) (kwargs e)) w2 of
           (Inr future, ex', w3) \<Rightarrow>
             (let (now, w4) = time_time E w3
              in (e\<lparr>last_run_at := Some now\<rparr>, remaining, ex', w4))
         | (Inl err, ex', w3) \<Rightarrow>
             (e, remaining, ex',
              logger ERROR (FailedToSubmitScheduledTask (name (task e)) err) w3))
      else (e, remaining, ex, w1))"

text \<open>
  \<open>if next_wake is None or remaining < next_wake: next_wake = remaining\<close>
\<close>

definition nearest_wake :: "real option \<Rightarrow> real \<Rightarrow> real option" where
  "nearest_wake next_wake remaining =
     (case next_wake of
        None \<Rightarrow> Some remaining
      | Some n \<Rightarrow> if remaining < n then Some remaining else Some n)"

text \<open>
  The first loop, \<open>for entry in self.scheduled_entries.values()\<close>: the entries in the
  order of the dictionary; an entry the body assigns to is updated where it stands.
\<close>

fun tick_entries ::
  "env \<Rightarrow> (string \<times> TaskEntry) list \<Rightarrow> real option \<Rightarrow> BaseExecutor \<Rightarrow> world
     \<Rightarrow> (string \<times> TaskEntry) list \<times> real option \<times> BaseExecutor \<times> world" where
  "tick_entries E [] next_wake ex w = ([], next_wake, ex, w)"
| "tick_entries E ((k, e) # es) next_wake ex w =
     (let (e', remaining, ex1, w1) = tick_entry E e ex w;
          (es', next_wake', ex2, w2) =
             tick_entries E es (nearest_wake next_wake remaining) ex1 w1
      in ((k, e') # es', next_wake', ex2, w2))"

text \<open>
  The second loop, which empties the queue (\<open>get_nowait\<close> until \<open>Empty\<close>):
  \<^verbatim>\<open>
  task, args, kwargs = self.instant_queue.get_nowait()
  logger.debug(f"Processing instant task from queue: {task.name}")
  try:
      self.executor.submit(task.run, *args, **kwargs)
  except Exception as e:
      logger.error(f"Failed to submit instant task {task.name}: {e}", exc_info=True)
  \<close>
\<close>

fun drain_instant_queue ::
  "env \<Rightarrow> (Task \<times> args \<times> kwargs) list \<Rightarrow> BaseExecutor \<Rightarrow> world \<Rightarrow> BaseExecutor \<times> world" where
  "drain_instant_queue E [] ex w = (ex, w)"
| "drain_instant_queue E ((t, a, k) # q) ex w =
     (let w1 = logger DEBUG (ProcessingInstantTask (name t)) w in
      case submit E ex (run_job t a k) w1 of
        (Inr future, ex', w2) \<Rightarrow> drain_instant_queue E q ex' w2
      | (Inl err, ex', w2) \<Rightarrow>
          drain_instant_queue E q ex' (logger ERROR (FailedToSubmitInstantTask (name t) err) w2))"

text \<open>
  \<open>next_wake or 1.0\<close>: \<open>None\<close> and the number zero are falsy.
\<close>

definition or_default :: "real option \<Rightarrow> real \<Rightarrow> real" where
  "or_default next_wake d =
     (case next_wake of None \<Rightarrow> d | Some n \<Rightarrow> if n = 0 then d else n)"

text \<open>
  \<open>Scheduler.tick\<close>: the first loop, the second loop, then
  \<open>return min(next_wake or 1.0, 1.0)\<close>.
\<close>

definition tick :: "env \<Rightarrow> Scheduler \<Rightarrow> world \<Rightarrow> real \<times> Scheduler \<times> world" where
  "tick E s w =
     (let (es', next_wake, ex1, w1) =
            tick_entries E (scheduled_entries s) None (executor s) w;
          (ex2, w2) = drain_instant_queue E (instant_queue s) ex1 w1
      in (min (or_default next_wake 1) 1,
          s\<lparr>executor := ex2, scheduled_entries := es', instant_queue := []\<rparr>,
          w2))"

text \<open>
  \<open>Scheduler.shutdown\<close>: \<open>self.running = False\<close>, then the executor (an object, hence
  truthy) is shut down with \<open>wait=True\<close>.
\<close>

definition Scheduler_shutdown :: "env \<Rightarrow> Scheduler \<Rightarrow> world \<Rightarrow> Scheduler \<times> world" where
  "Scheduler_shutdown E s w =
     (let w1 = logger INFO ShuttingDownScheduler w;
          (ex', w2) = shutdown E (executor s) True w1
      in (s\<lparr>running := False, executor := ex'\<rparr>, logger INFO SchedulerShutdownComplete w2))"

text \<open>
  What the first loop sees, in the order it sees it: the pair \<open>(due, remaining)\<close> that
  \<open>is_due\<close> returned for each entry when the loop reached it.
\<close>

fun evaluations ::
  "env \<Rightarrow> (string \<times> TaskEntry) list \<Rightarrow> BaseExecutor \<Rightarrow> world \<Rightarrow> (bool \<times> real) list" where
  "evaluations E [] ex w = []"
| "evaluations E ((k, e) # es) ex w =
     (let (e', remaining, ex1, w1) = tick_entry E e ex w
      in fst (is_due E e w) # evaluations E es ex1 w1)"



subsection \<open>app.py: the submission path\<close>

text \<open>
  \<open>ChewyTask\<close>: \<open>tasks\<close> is \<open>_tasks\<close>, \<open>scheduler\<close> is \<open>_scheduler\<close>, \<open>started\<close> is
  \<open>_started\<close>. The attribute \<open>_executor\<close> is a second reference to the executor that
  the scheduler holds; the class never reads it, and it is left out.
\<close>

record ChewyTask =
  app_max_workers :: "int option"
  task_timeout :: "real option"
  tasks :: "(string \<times> Task) list"
  scheduler :: "Scheduler option"
  started :: bool

definition ChewyTask_init :: "int option \<Rightarrow> real option \<Rightarrow> ChewyTask" where
  "ChewyTask_init mw tt =
     \<lparr>app_max_workers = mw, task_timeout = tt, tasks = [], scheduler = None, started = False\<rparr>"

text \<open>
  \<open>ChewyTask._ensure_scheduler_initialized(threading)\<close>: builds the executor and the
  scheduler when there is none yet.
\<close>

definition ensure_scheduler_initialized :: "ChewyTask \<Rightarrow> bool \<Rightarrow> world \<Rightarrow> ChewyTask \<times> world" where
  "ensure_scheduler_initialized ap threading w =
     (case scheduler ap of
        Some s \<Rightarrow> (ap, w)
      | None \<Rightarrow>
          (ap\<lparr>scheduler := Some (Scheduler_init (create_executor threading (app_max_workers ap)))\<rparr>,
           logger DEBUG SchedulerInitialized w))"

text \<open>
  \<open>ChewyTask.submit_task\<close>:
  \<^verbatim>\<open>
  self._ensure_scheduler_initialized()
  if self._scheduler:
      return self._scheduler.submit_instant_task(task, *args, **kwargs)
  raise RuntimeError("Scheduler not initialized")
  \<close>
  Its signature is \<open>(self, task, *args, **kwargs)\<close>: called with a keyword \<open>self\<close> or
  \<open>task\<close> it raises before its body runs.
\<close>

definition submit_task ::
  "env \<Rightarrow> ChewyTask \<Rightarrow> Task \<Rightarrow> args \<Rightarrow> kwargs \<Rightarrow> world \<Rightarrow> (error + Future) \<times> ChewyTask \<times> world" where
  "submit_task E ap t a k w =
     (case bound_twice [''self'', ''task''] k of
        Some key \<Rightarrow> (Inl (MultipleValues ''submit_task'' key), ap, w)
      | None \<Rightarrow>
          (let (ap1, w1) = ensure_scheduler_initialized ap True w in
           case scheduler ap1 of
             Some s \<Rightarrow>
               (let (r, s', w2) = submit_instant_task E s t a k w1
                in (r, ap1\<lparr>scheduler := Some s'\<rparr>, w2))
           | None \<Rightarrow> (Inl SchedulerNotInitialized, ap1, w1)))"

text \<open>
  \<open>Task.delay\<close>, with the store of the \<open>ChewyTask\<close> objects that tasks refer to:
  \<^verbatim>\<open>
  if self.app is None:
      raise RuntimeError(...)
  return self.app.submit_task(self, *args, **kwargs)
  \<close>
  Its signature is \<open>(self, *args, **kwargs)\<close>: called with a keyword \<open>self\<close> it raises
  before its body runs.
\<close>

definition delay ::
  "env \<Rightarrow> Task \<Rightarrow> args \<Rightarrow> kwargs \<Rightarrow> (nat \<Rightarrow> ChewyTask) \<Rightarrow> world
     \<Rightarrow> (error + Future) \<times> (nat \<Rightarrow> ChewyTask) \<times> world" where
  "delay E t a k apps w =
     (case bound_twice [''self''] k of
        Some key \<Rightarrow> (Inl (MultipleValues ''delay'' key), apps, w)
      | None \<Rightarrow>
          (case app t of
             None \<Rightarrow> (Inl (TaskNotBound (name t)), apps, w)
           | Some r \<Rightarrow>
               (let (res, ap', w') = submit_task E (apps r) t a k w
                in (res, apps(r := ap'), w'))))"

subsection \<open>Reading a tick\<close>




subsection \<open>Reachable schedulers\<close>

text \<open>
  The states of a \<open>Scheduler\<close> that its constructor and its public methods
  (\<open>add_scheduled_task\<close>, \<open>submit_instant_task\<close>, \<open>tick\<close>, \<open>shutdown\<close>) produce; \<open>run\<close> is
  \<open>self.running = True\<close>, then \<open>tick\<close> again and again, then \<open>shutdown\<close>.
\<close>

inductive reachable :: "env \<Rightarrow> Scheduler \<Rightarrow> bool" for E :: env where
  created: "reachable E (Scheduler_init ex)"
| added: "reachable E s \<Longrightarrow> reachable E (fst (add_scheduled_task s e w))"
| submitted: "reachable E s \<Longrightarrow> reachable E (fst (snd (submit_instant_task E s t a k w)))"
| ticked: "reachable E s \<Longrightarrow> reachable E (fst (snd (tick E s w)))"
| run_started: "reachable E s \<Longrightarrow> reachable E (s\<lparr>running := True\<rparr>)"
| stopped: "reachable E s \<Longrightarrow> reachable E (fst (Scheduler_shutdown E s w))"

subsection \<open>Concrete objects\<close>

text \<open>A clock that stands at \<open>c\<close>, and a backend that raises nothing.\<close>

definition quiet_env :: "real \<Rightarrow> env" where
  "quiet_env c =
     \<lparr>time_at = (\<lambda>n. c),
      pool_create_error = (\<lambda>k mw. None),
      pool_submit_error = (\<lambda>p j. None),
      pool_shutdown_error = (\<lambda>p wait. None)\<rparr>"

text \<open>The same, but the pool refuses every job of a task named \<open>bad\<close>.\<close>

definition picky_env :: "real \<Rightarrow> env" where
  "picky_env c =
     \<lparr>time_at = (\<lambda>n. c),
      pool_create_error = (\<lambda>k mw. None),
      pool_submit_error = (\<lambda>p j. if name (job_task j) = ''bad'' then Some ''refused'' else None),
      pool_shutdown_error = (\<lambda>p wait. None)\<rparr>"

definition world0 :: world where
  "world0 = \<lparr>logged = [], clock_reads = 0\<rparr>"

definition hello :: Task where
  "hello = \<lparr>func = Callable ''hello'', name = ''hello'', app = None\<rparr>"

definition bad :: Task where
  "bad = \<lparr>func = Callable ''bad'', name = ''bad'', app = None\<rparr>"

definition bound_task :: Task where
  "bound_task = \<lparr>func = Callable ''bound'', name = ''bound'', app = Some 0\<rparr>"

text \<open>An entry of task \<open>t\<close> with interval \<open>i\<close>, last dispatched at \<open>l\<close>.\<close>

definition entry_of :: "string \<Rightarrow> Task \<Rightarrow> real \<Rightarrow> real option \<Rightarrow> TaskEntry" where
  "entry_of uuid t i l =
     (TaskEntry_init uuid t \<lparr>interval = i\<rparr> None None)\<lparr>last_run_at := l\<rparr>"

definition thread_executor :: BaseExecutor where
  "thread_executor = create_executor True None"

text \<open>A scheduler with the given registry and queue, on a fresh thread executor.\<close>

definition scheduler_of ::
  "(string \<times> TaskEntry) list \<Rightarrow> (Task \<times> args \<times> kwargs) list \<Rightarrow> Scheduler" where
  "scheduler_of es q =
     \<lparr>executor = thread_executor, scheduled_entries = es, instant_queue = q, running = False\<rparr>"

text \<open>The double that the literal \<open>0.4\<close> denotes.\<close>

definition double_0_4 :: real where
  "double_0_4 = 3602879701896397 / 2 ^ 53"

text \<open>
  Registries: two entries dispatched at time 0 with the intervals \<open>0.4\<close> and \<open>3.0\<close>
  (at clock 0 they have 0.4 and 3.0 left); two entries dispatched at time 99 with the
  intervals 6 and 9 (at clock 100 they have 5.0 and 8.0 left); and two entries never
  dispatched, of the tasks \<open>bad\<close> and \<open>hello\<close>.
\<close>

definition registry_04_30 :: "(string \<times> TaskEntry) list" where
  "registry_04_30 =
     [(''a'', entry_of ''a'' hello double_0_4 (Some 0)), (''b'', entry_of ''b'' hello 3 (Some 0))]"

definition registry_50_80 :: "(string \<times> TaskEntry) list" where
  "registry_50_80 =
     [(''a'', entry_of ''a'' hello 6 (Some 99)), (''b'', entry_of ''b'' hello 9 (Some 99))]"

definition registry_bad_hello :: "(string \<times> TaskEntry) list" where
  "registry_bad_hello =
     [(''a'', entry_of ''a'' bad 5 None), (''b'', entry_of ''b'' hello 5 None)]"


section \<open>Properties\<close>

subsection \<open>Rounding to doubles\<close>

lemma round_half_even_of_int: "round_half_even (of_int n) = n"
  by (simp add: round_half_even_def)


lemma ulp_exponent_eq:
  assumes "2 powi k \<le> \<bar>x\<bar>" "\<bar>x\<bar> < 2 powi (k + 1)"
  shows "ulp_exponent x = k - 52"
proof -
  have pos: "0 < \<bar>x\<bar>" using assms(1) by (smt (verit) zero_less_power_int)
  have a: "(2::real) powr real_of_int k = 2 powi k"
    by (simp add: powr_real_of_int')
  have b: "(2::real) powr (real_of_int k + 1) = 2 powi (k + 1)"
    using powr_real_of_int'[of "2::real" "k + 1"] by simp
  have "\<lfloor>log 2 \<bar>x\<bar>\<rfloor> = k"
    using assms pos floor_log_eq_powr_iff[of "\<bar>x\<bar>" 2 k] a b by simp
  then show ?thesis by (simp add: ulp_exponent_def)
qed

lemma scaled_bounds:
  assumes "x \<noteq> 0"
  shows "2 ^ 52 \<le> \<bar>x\<bar> / 2 powi ulp_exponent x \<and> \<bar>x\<bar> / 2 powi ulp_exponent x < 2 ^ 53"
proof -
  define L where "L = \<lfloor>log 2 \<bar>x\<bar>\<rfloor>"
  have pos: "0 < \<bar>x\<bar>" using assms by simp
  have a1: "(2::real) powr real_of_int L = 2 powi L"
    by (simp add: powr_real_of_int')
  have a2: "(2::real) powr (real_of_int L + 1) = 2 powi (L + 1)"
    using powr_real_of_int'[of "2::real" "L + 1"] by simp
  have "\<lfloor>log 2 \<bar>x\<bar>\<rfloor> = L" by (simp add: L_def)
  then have b: "2 powi L \<le> \<bar>x\<bar>" "\<bar>x\<bar> < 2 powi (L + 1)"
    using pos floor_log_eq_powr_iff[of "\<bar>x\<bar>" 2 L] a1 a2 by simp_all
  have e: "ulp_exponent x = L - 52" by (simp add: ulp_exponent_def L_def)
  have p: "(2::real) powi L = 2 ^ 52 * 2 powi (L - 52)"
    using power_int_add[of "2::real" 52 "L - 52"] by simp
  have q: "(2::real) powi (L + 1) = 2 ^ 53 * 2 powi (L - 52)"
    using power_int_add[of "2::real" 53 "L - 52"] by (simp add: add.commute)
  have z: "(0::real) < 2 powi (L - 52)" by simp
  show ?thesis
    using b p q z unfolding e by (simp add: pos_le_divide_eq pos_divide_less_eq)
qed




lemma double_of_eval:
  assumes "2 powi k \<le> \<bar>x\<bar>" "\<bar>x\<bar> < 2 powi (k + 1)"
  shows "double_of x = of_int (round_half_even (x / 2 powi (k - 52))) * 2 powi (k - 52)"
proof -
  have "x \<noteq> 0" using assms(1) by (smt (verit) zero_less_power_int)
  then show ?thesis using ulp_exponent_eq[OF assms] by (simp add: double_of_def)
qed

lemma double_of_dyadic:
  assumes "\<bar>m\<bar> < 2 ^ 53"
  shows "double_of (of_int m / 2 ^ n) = of_int m / 2 ^ n"
proof (cases "m = 0")
  case True
  then show ?thesis by (simp add: double_of_def)
next
  case False
  define x :: real where "x = of_int m / 2 ^ n"
  define e where "e = ulp_exponent x"
  have x0: "x \<noteq> 0" using False by (simp add: x_def)
  have xn: "x = of_int m * 2 powi (- int n)"
    by (simp add: x_def power_int_minus field_simps)
  have lo: "2 ^ 52 \<le> \<bar>x\<bar> / 2 powi e"
    using scaled_bounds[OF x0] by (simp add: e_def)
  have "\<bar>real_of_int m\<bar> < 2 ^ 53"
    using assms by (metis of_int_abs of_int_less_numeral_power_cancel_iff)
  then have hi: "\<bar>x\<bar> < 2 ^ 53 * 2 powi (- int n)"
    by (simp add: xn abs_mult)
  have "2 ^ 52 * 2 powi e \<le> \<bar>x\<bar>"
    using lo by (simp add: pos_le_divide_eq)
  then have "(2::real) ^ 52 * 2 powi e < 2 ^ 53 * 2 powi (- int n)"
    using hi by linarith
  then have lt: "(2::real) powi e < 2 powi (1 - int n)"
    using power_int_add[of "2::real" 1 "- int n"] by simp
  have "e < 1 - int n"
  proof (rule ccontr)
    assume "\<not> e < 1 - int n"
    then have "1 - int n \<le> e" by simp
    then have "(2::real) powi (1 - int n) \<le> 2 powi e"
      by (intro power_int_increasing) simp_all
    with lt show False by simp
  qed
  then have k: "0 \<le> - int n - e" by simp
  define k where "k = nat (- int n - e)"
  have ke: "int k = - int n - e" using k by (simp add: k_def)
  have "(2::real) powi (- int n) = 2 powi (int k) * 2 powi e"
    using power_int_add[of "2::real" "int k" e] ke by simp
  then have sc: "x / 2 powi e = of_int (m * 2 ^ k)"
    by (simp add: xn)
  have "double_of x = of_int (m * 2 ^ k) * 2 powi e"
    using x0 sc round_half_even_of_int[of "m * 2 ^ k"]
    by (simp add: double_of_def e_def[symmetric] del: of_int_mult of_int_power)
  also have "\<dots> = x"
  proof -
    have "(x / 2 powi e) * 2 powi e = x" by simp
    then show ?thesis unfolding sc .
  qed
  finally show ?thesis by (simp add: x_def)
qed








subsection \<open>The executor's submit and shutdown\<close>

lemma submit_error_cases:
  "fst (submit E ex j w) = Inl err \<Longrightarrow>
   err = NoPoolAttribute \<or> (\<exists>m. err = BackendError m) \<or> (\<exists>f p. err = MultipleValues f p)"
  by (auto simp: submit_def start_def pool_new_def pool_submit_def Let_def
           split: option.splits sum.splits if_splits prod.splits)

lemma submit_accepted_jobs:
  "submit E ex j w = (r, ex', w') \<Longrightarrow>
   accepted_jobs ex' = accepted_jobs ex @ (case r of Inl err \<Rightarrow> [] | Inr f \<Rightarrow> [j])"
  by (auto simp: submit_def start_def pool_new_def pool_submit_def Let_def accepted_jobs_def
           split: option.splits sum.splits if_splits prod.splits)

lemma submit_static:
  "submit E ex j w = (r, ex', w') \<Longrightarrow> kind ex' = kind ex \<and> max_workers ex' = max_workers ex"
  by (auto simp: submit_def start_def pool_new_def pool_submit_def Let_def accepted_jobs_def
           split: option.splits sum.splits if_splits prod.splits)


lemma shutdown_clears_pool: "pool (fst (shutdown E ex wait w)) = None"
  by (auto simp: shutdown_def Let_def split: option.splits)

lemma shutdown_static:
  "kind (fst (shutdown E ex wait w)) = kind ex
   \<and> max_workers (fst (shutdown E ex wait w)) = max_workers ex"
  by (auto simp: shutdown_def Let_def split: option.splits)

lemma shutdown_forgets:
  "fst (shutdown E ex wait w) = BaseExecutor_init (kind ex) (max_workers ex)"
  by (cases ex) (auto simp: shutdown_def BaseExecutor_init_def Let_def split: option.splits)

lemma submit_without_pool_full:
  "pool ex = None \<Longrightarrow>
   submit E ex j w =
     (case bound_twice [''self'', ''fn''] (job_kwargs j) of
        Some key \<Rightarrow> (Inl (MultipleValues ''submit'' key), ex, w)
      | None \<Rightarrow>
          (case pool_create_error E (kind ex) (max_workers ex) of
             Some m \<Rightarrow> (Inl (BackendError m), ex, w)
           | None \<Rightarrow>
               (let fresh = \<lparr>pool_kind = kind ex, pool_workers = max_workers ex, accepted = []\<rparr>;
                    w1 = logger INFO (ExecutorStarted (kind ex) (max_workers ex)) w
                in case pool_submit_error E fresh j of
                     Some m \<Rightarrow>
                       (Inl (BackendError m), ex\<lparr>pool := Some fresh\<rparr>,
                        logger ERROR (FailedToSubmitTask (BackendError m)) w1)
                   | None \<Rightarrow>
                       (Inr (Future 0 j), ex\<lparr>pool := Some (fresh\<lparr>accepted := [j]\<rparr>)\<rparr>, w1))))"
  by (auto simp: submit_def start_def pool_new_def pool_submit_def Let_def
           split: option.splits sum.splits prod.splits)

text \<open>
  C1. After \<open>shutdown\<close> the pool reference is cleared, whatever the pool's own
  shutdown did, and the executor is again as its constructor made it: nothing records
  the shutdown. A later \<open>submit\<close> is therefore the first \<open>submit\<close> of an executor
  that was never started: when the keywords of the job bind, the pool can be built and
  the pool takes the job, it starts a fresh pool and returns the future of the job.
\<close>

theorem submit_after_shutdown_restarts:
  fixes E :: env and ex :: BaseExecutor and wait :: bool and w :: world
  defines "ex0 \<equiv> fst (shutdown E ex wait w)"
  shows "pool ex0 = None \<and> ex0 = BaseExecutor_init (kind ex) (max_workers ex)
   \<and> submit E ex0 j w' =
     (case bound_twice [''self'', ''fn''] (job_kwargs j) of
        Some key \<Rightarrow> (Inl (MultipleValues ''submit'' key), ex0, w')
      | None \<Rightarrow>
          (case pool_create_error E (kind ex) (max_workers ex) of
             Some m \<Rightarrow> (Inl (BackendError m), ex0, w')
           | None \<Rightarrow>
               (let fresh = \<lparr>pool_kind = kind ex, pool_workers = max_workers ex, accepted = []\<rparr>;
                    w1 = logger INFO (ExecutorStarted (kind ex) (max_workers ex)) w'
                in case pool_submit_error E fresh j of
                     Some m \<Rightarrow>
                       (Inl (BackendError m), ex0\<lparr>pool := Some fresh\<rparr>,
                        logger ERROR (FailedToSubmitTask (BackendError m)) w1)
                   | None \<Rightarrow>
                       (Inr (Future 0 j), ex0\<lparr>pool := Some (fresh\<lparr>accepted := [j]\<rparr>)\<rparr>, w1))))"
proof -
  have cleared: "pool ex0 = None"
    by (simp add: ex0_def shutdown_clears_pool)
  have static: "kind ex0 = kind ex" "max_workers ex0 = max_workers ex"
    by (simp_all add: ex0_def shutdown_static)
  have fresh: "ex0 = BaseExecutor_init (kind ex) (max_workers ex)"
    by (simp add: ex0_def shutdown_forgets)
  show ?thesis
    using submit_without_pool_full[OF cleared, of E j w'] cleared fresh
    unfolding static by blast
qed

text \<open>
  C1 as the specification words it, with the later \<open>submit\<close> raising, does not hold: a
  thread executor is started and shut down; \<open>submit\<close> then returns a future.
\<close>

theorem submit_after_shutdown_counterexample:
  "pool (fst (snd (start (quiet_env 0) thread_executor world0))) \<noteq> None
   \<and> pool (fst (shutdown (quiet_env 0)
                  (fst (snd (start (quiet_env 0) thread_executor world0))) True world0)) = None
   \<and> fst (submit (quiet_env 0)
            (fst (shutdown (quiet_env 0)
                    (fst (snd (start (quiet_env 0) thread_executor world0))) True world0))
            (run_job hello [] []) world0)
       = Inr (Future 0 (run_job hello [] []))"
  by (simp add: submit_def start_def shutdown_def pool_new_def pool_submit_def quiet_env_def
        thread_executor_def create_executor_def BaseExecutor_init_def world0_def logger_def
        run_job_def Let_def)

subsection \<open>Construction of schedules\<close>

text \<open>
  C6. \<open>IntervalSchedule(interval)\<close> raises the \<open>ValueError\<close> for an interval that is zero
  or negative and returns the schedule for every positive interval; the executor's
  \<open>submit\<close>, which is all that can raise when a task is dispatched, never raises that
  error.
\<close>

theorem interval_checked_at_construction:
  "(i \<le> 0 \<longrightarrow> IntervalSchedule_init i = Inl (IntervalNotPositive i))
   \<and> (0 < i \<longrightarrow> IntervalSchedule_init i = Inr \<lparr>interval = i\<rparr>)
   \<and> fst (submit E ex j w) \<noteq> Inl (IntervalNotPositive x)"
  using submit_error_cases [of E ex j w "IntervalNotPositive x"]
  by (auto simp: IntervalSchedule_init_def)

theorem interval_checked_at_construction_witness:
  "IntervalSchedule_init 0 = Inl (IntervalNotPositive 0)
   \<and> IntervalSchedule_init (-1) = Inl (IntervalNotPositive (-1))
   \<and> IntervalSchedule_init 5 = Inr \<lparr>interval = 5\<rparr>"
  using interval_checked_at_construction [of 0]
        interval_checked_at_construction [of "-1"]
        interval_checked_at_construction [of 5]
  by simp

subsection \<open>Due-time evaluation\<close>



lemma is_due_remaining_positive:
  "0 < interval (schedule e) \<Longrightarrow> 0 < snd (fst (is_due E e w))"
  by (auto simp: is_due_def time_time_def Let_def split: option.splits)

lemma is_due_when_due:
  "fst (fst (is_due E e w)) \<Longrightarrow> snd (fst (is_due E e w)) = interval (schedule e)"
  by (auto simp: is_due_def time_time_def Let_def split: option.splits if_splits)


subsection \<open>Instant submission\<close>

lemma submit_instant_task_unfold:
  "submit_instant_task E s t a k w =
     (case bound_twice [''self'', ''task''] k of
        Some key \<Rightarrow> (Inl (MultipleValues ''submit_instant_task'' key), s, w)
      | None \<Rightarrow>
          (case submit E (executor s) (run_job t a k) w of
             (r, ex', w') \<Rightarrow>
               (r, s\<lparr>executor := ex'\<rparr>,
                case r of Inl err \<Rightarrow> w'
                | Inr f \<Rightarrow> logger DEBUG (InstantTaskSubmitted (name t)) w')))"
  by (auto simp: submit_instant_task_def split: prod.splits sum.splits option.splits)

lemma submit_instant_task_queue:
  "instant_queue (fst (snd (submit_instant_task E s t a k w))) = instant_queue s"
  by (auto simp: submit_instant_task_def split: prod.splits sum.splits option.splits)

lemma submit_instant_task_queue_dest:
  "submit_instant_task E s t a k w = (r, s', w') \<Longrightarrow> instant_queue s' = instant_queue s"
  using submit_instant_task_queue[of E s t a k w] by simp

lemma submit_instant_task_accepted:
  "fst (submit_instant_task E s t a k w) = Inr f \<Longrightarrow>
   accepted_jobs (executor (fst (snd (submit_instant_task E s t a k w))))
     = accepted_jobs (executor s) @ [run_job t a k]"
  by (auto simp: submit_instant_task_def split: prod.splits sum.splits option.splits
           dest!: submit_accepted_jobs)

lemma submit_instant_task_running:
  "submit_instant_task E (s\<lparr>running := b\<rparr>) t a k w =
     (case submit_instant_task E s t a k w of (r, s', w') \<Rightarrow> (r, s'\<lparr>running := b\<rparr>, w'))"
  by (auto simp: submit_instant_task_def split: prod.splits sum.splits option.splits)

lemma submit_instant_task_without_pool:
  "pool (executor s) = None \<Longrightarrow>
   fst (submit_instant_task E s t a k w) =
     (case bound_twice [''self'', ''task''] k of
        Some key \<Rightarrow> Inl (MultipleValues ''submit_instant_task'' key)
      | None \<Rightarrow>
          (case bound_twice [''self'', ''fn''] k of
             Some key \<Rightarrow> Inl (MultipleValues ''submit'' key)
           | None \<Rightarrow>
               (case pool_create_error E (kind (executor s)) (max_workers (executor s)) of
                  Some m \<Rightarrow> Inl (BackendError m)
                | None \<Rightarrow>
                    (case pool_submit_error E
                            \<lparr>pool_kind = kind (executor s),
                             pool_workers = max_workers (executor s), accepted = []\<rparr>
                            (run_job t a k) of
                       Some m \<Rightarrow> Inl (BackendError m)
                     | None \<Rightarrow> Inr (Future 0 (run_job t a k))))))"
  using submit_without_pool_full[of "executor s" E "run_job t a k" w]
  by (auto simp: submit_instant_task_unfold run_job_def Let_def split: option.splits)

lemma submit_instant_task_starts_pool:
  "fst (submit_instant_task E s t a k w) = Inr f \<Longrightarrow>
   pool (executor (fst (snd (submit_instant_task E s t a k w)))) \<noteq> None"
  by (auto simp: submit_instant_task_def submit_def start_def pool_new_def pool_submit_def Let_def
           split: prod.splits sum.splits option.splits if_splits)

lemma tick_queue: "instant_queue (fst (snd (tick E s w))) = []"
  by (auto simp: tick_def Let_def split: prod.splits)

lemma reachable_queue_empty: "reachable E s \<Longrightarrow> instant_queue s = []"
proof (induction rule: reachable.induct)
  case (created ex)
  then show ?case by (simp add: Scheduler_init_def)
next
  case (added s e w)
  then show ?case by (simp add: add_scheduled_task_def)
next
  case (submitted s t a k w)
  then show ?case by (simp add: submit_instant_task_queue)
next
  case (ticked s w)
  then show ?case by (simp add: tick_queue)
next
  case (run_started s)
  then show ?case by simp
next
  case (stopped s w)
  then show ?case by (simp add: Scheduler_shutdown_def Let_def split: prod.splits)
qed

lemma submit_task_queue:
  "scheduler (fst (snd (submit_task E ap t a k w))) = Some s' \<Longrightarrow>
   instant_queue s' = (case scheduler ap of None \<Rightarrow> [] | Some s0 \<Rightarrow> instant_queue s0)"
  by (auto dest!: submit_instant_task_queue_dest
           simp: submit_task_def ensure_scheduler_initialized_def Scheduler_init_def Let_def
           split: option.splits prod.splits)

text \<open>
  C2. \<open>submit_instant_task\<close> does not read the \<open>running\<close> flag: run on a
  scheduler with the flag set either way it returns the same result and leaves the same
  state, flag apart. On an executor that has no pool it does not fail for that reason:
  when the keywords bind, the pool can be built and the pool takes the job, it returns
  the future of the job; and whenever it returns a future the executor has a pool, which
  accepted the job last.
\<close>

theorem submit_instant_task_ignores_running:
  "submit_instant_task E (s\<lparr>running := b\<rparr>) t a k w =
     (case submit_instant_task E s t a k w of (r, s', w') \<Rightarrow> (r, s'\<lparr>running := b\<rparr>, w'))
   \<and> (pool (executor s) = None \<longrightarrow>
        fst (submit_instant_task E s t a k w) =
          (case bound_twice [''self'', ''task''] k of
             Some key \<Rightarrow> Inl (MultipleValues ''submit_instant_task'' key)
           | None \<Rightarrow>
               (case bound_twice [''self'', ''fn''] k of
                  Some key \<Rightarrow> Inl (MultipleValues ''submit'' key)
                | None \<Rightarrow>
                    (case pool_create_error E (kind (executor s)) (max_workers (executor s)) of
                       Some m \<Rightarrow> Inl (BackendError m)
                     | None \<Rightarrow>
                         (case pool_submit_error E
                                 \<lparr>pool_kind = kind (executor s),
                                  pool_workers = max_workers (executor s), accepted = []\<rparr>
                                 (run_job t a k) of
                            Some m \<Rightarrow> Inl (BackendError m)
                          | None \<Rightarrow> Inr (Future 0 (run_job t a k)))))))
   \<and> (\<forall>f. fst (submit_instant_task E s t a k w) = Inr f \<longrightarrow>
        pool (executor (fst (snd (submit_instant_task E s t a k w)))) \<noteq> None
      \<and> accepted_jobs (executor (fst (snd (submit_instant_task E s t a k w))))
           = accepted_jobs (executor s) @ [run_job t a k])"
  using submit_instant_task_running[of E b s t a k w]
    submit_instant_task_without_pool[of s E t a k w]
    submit_instant_task_starts_pool[of E s t a k w]
    submit_instant_task_accepted[of E s t a k w]
  by blast

text \<open>
  On a scheduler that was never run and an executor that was never started, with a pool
  that refuses the task \<open>bad\<close>: \<open>hello(1)\<close> is accepted by a pool started for it,
  \<open>bad()\<close> raises the error of the pool, \<open>hello(fn=1)\<close> and \<open>hello(task=1)\<close> raise the
  \<open>TypeError\<close> of the call.
\<close>

theorem submit_instant_task_ignores_running_witness:
  "pool (executor (scheduler_of [] [])) = None
   \<and> fst (submit_instant_task (picky_env 0) (scheduler_of [] []) hello [IntV 1] [] world0)
       = Inr (Future 0 (run_job hello [IntV 1] []))
   \<and> pool (executor (fst (snd
        (submit_instant_task (picky_env 0) (scheduler_of [] []) hello [IntV 1] [] world0))))
       = Some \<lparr>pool_kind = ThreadExecutor, pool_workers = None,
                accepted = [run_job hello [IntV 1] []]\<rparr>
   \<and> fst (submit_instant_task (picky_env 0) (scheduler_of [] []) bad [] [] world0)
       = Inl (BackendError ''refused'')
   \<and> fst (submit_instant_task (picky_env 0) (scheduler_of [] []) hello [] [(''fn'', IntV 1)] world0)
       = Inl (MultipleValues ''submit'' ''fn'')
   \<and> fst (submit_instant_task (picky_env 0) (scheduler_of [] []) hello [] [(''task'', IntV 1)] world0)
       = Inl (MultipleValues ''submit_instant_task'' ''task'')"
  using submit_instant_task_ignores_running
          [where E = "picky_env 0" and s = "scheduler_of [] []" and t = hello
             and a = "[IntV 1]" and k = "[]" and w = world0]
        submit_instant_task_ignores_running
          [where E = "picky_env 0" and s = "scheduler_of [] []" and t = bad
             and a = "[]" and k = "[]" and w = world0]
        submit_instant_task_ignores_running
          [where E = "picky_env 0" and s = "scheduler_of [] []" and t = hello
             and a = "[]" and k = "[(''fn'', IntV 1)]" and w = world0]
        submit_instant_task_ignores_running
          [where E = "picky_env 0" and s = "scheduler_of [] []" and t = hello
             and a = "[]" and k = "[(''task'', IntV 1)]" and w = world0]
  by (simp add: submit_instant_task_def scheduler_of_def submit_def start_def pool_new_def
        pool_submit_def picky_env_def thread_executor_def create_executor_def
        BaseExecutor_init_def world0_def logger_def run_job_def hello_def bad_def Let_def)

text \<open>
  C2 as the specification words it, with an error when the scheduler or the executor is
  not running, does not hold: a scheduler that was never run, on an executor that was
  never started, accepts the task and returns a future.
\<close>

theorem submit_instant_task_not_running_counterexample:
  "\<not> running (scheduler_of [] [])
   \<and> pool (executor (scheduler_of [] [])) = None
   \<and> fst (submit_instant_task (quiet_env 0) (scheduler_of [] []) hello [] [] world0)
       = Inr (Future 0 (run_job hello [] []))"
  by (simp add: submit_instant_task_def scheduler_of_def submit_def start_def pool_new_def
        pool_submit_def quiet_env_def thread_executor_def create_executor_def
        BaseExecutor_init_def world0_def logger_def run_job_def Let_def)

text \<open>
  C8. Called with keywords that bind, \<open>submit_instant_task\<close> is the executor's \<open>submit\<close>
  on the job of the task: it returns what that call returns, and of the scheduler only
  the executor changes; on success the job is the last one the executor accepted. Called
  with a keyword \<open>self\<close> or \<open>task\<close> it raises and changes nothing. The queue is as it
  was in every case. Nor does \<open>ChewyTask.submit_task\<close> (and with it \<open>Task.delay\<close>) add
  to the queue, and the queue of every scheduler that the constructor and the public
  methods produce is empty.
\<close>

theorem submit_instant_task_bypasses_queue:
  "submit_instant_task E s t a k w =
     (case bound_twice [''self'', ''task''] k of
        Some key \<Rightarrow> (Inl (MultipleValues ''submit_instant_task'' key), s, w)
      | None \<Rightarrow>
          (case submit E (executor s) (run_job t a k) w of
             (r, ex', w') \<Rightarrow>
               (r, s\<lparr>executor := ex'\<rparr>,
                case r of Inl err \<Rightarrow> w'
                | Inr f \<Rightarrow> logger DEBUG (InstantTaskSubmitted (name t)) w')))
   \<and> (\<forall>f. fst (submit_instant_task E s t a k w) = Inr f \<longrightarrow>
         accepted_jobs (executor (fst (snd (submit_instant_task E s t a k w))))
           = accepted_jobs (executor s) @ [run_job t a k])
   \<and> instant_queue (fst (snd (submit_instant_task E s t a k w))) = instant_queue s
   \<and> (\<forall>s'. scheduler (fst (snd (submit_task E ap t a k w))) = Some s' \<longrightarrow>
         instant_queue s' = (case scheduler ap of None \<Rightarrow> [] | Some s0 \<Rightarrow> instant_queue s0))
   \<and> (reachable E s \<longrightarrow> instant_queue s = [])"
  using submit_instant_task_unfold[of E s t a k w] submit_instant_task_accepted[of E s t a k w]
    submit_instant_task_queue[of E s t a k w] submit_task_queue[of E ap t a k w]
    reachable_queue_empty[of E s]
  by blast

theorem submit_instant_task_bypasses_queue_witness:
  "fst (submit_instant_task (quiet_env 0) (scheduler_of [] [(bad, [], [])]) hello [] [] world0)
     = Inr (Future 0 (run_job hello [] []))
   \<and> accepted_jobs (executor (fst (snd
        (submit_instant_task (quiet_env 0) (scheduler_of [] [(bad, [], [])]) hello [] [] world0))))
     = [run_job hello [] []]
   \<and> instant_queue (fst (snd
        (submit_instant_task (quiet_env 0) (scheduler_of [] [(bad, [], [])]) hello [] [] world0)))
     = [(bad, [], [])]
   \<and> reachable (quiet_env 0) (Scheduler_init thread_executor)
   \<and> instant_queue (Scheduler_init thread_executor) = []"
  using submit_instant_task_bypasses_queue
          [of "quiet_env 0" "scheduler_of [] [(bad, [], [])]" hello "[]" "[]" world0]
        submit_instant_task_bypasses_queue
          [of "quiet_env 0" "Scheduler_init thread_executor"]
        reachable.created [of "quiet_env 0" thread_executor]
  by (simp add: submit_instant_task_def scheduler_of_def Scheduler_init_def accepted_jobs_def
        submit_def start_def pool_new_def pool_submit_def logger_def Let_def run_job_def
        thread_executor_def create_executor_def BaseExecutor_init_def quiet_env_def world0_def
        hello_def bad_def)

lemma submit_instant_task_accepted_dest:
  "submit_instant_task E s t a k w = (Inr f, s', w') \<Longrightarrow>
   accepted_jobs (executor s') = accepted_jobs (executor s) @ [run_job t a k]"
  using submit_instant_task_accepted[of E s t a k w f] by simp

lemma accepted_jobs_fresh:
  "accepted_jobs (executor (Scheduler_init (create_executor threading mw))) = []"
  by (simp add: accepted_jobs_def Scheduler_init_def create_executor_def BaseExecutor_init_def)

lemma submit_task_accepted:
  "submit_task E ap t a k w = (Inr f, ap', w') \<Longrightarrow>
   \<exists>s. scheduler ap' = Some s
     \<and> accepted_jobs (executor s) =
         (case scheduler ap of None \<Rightarrow> [] | Some s0 \<Rightarrow> accepted_jobs (executor s0))
         @ [run_job t a k]"
  by (auto dest!: submit_instant_task_accepted_dest
           simp: submit_task_def ensure_scheduler_initialized_def Let_def accepted_jobs_fresh
           split: option.splits prod.splits)

lemma delay_self_keyword:
  "bound_twice [''self''] k = Some key \<Longrightarrow>
   delay E t a k apps w = (Inl (MultipleValues ''delay'' key), apps, w)"
  by (simp add: delay_def)

lemma delay_unbound:
  "app t = None \<Longrightarrow> \<exists>err. delay E t a k apps w = (Inl err, apps, w)"
  by (auto simp: delay_def split: option.splits)

lemma delay_unbound_error:
  "app t = None \<Longrightarrow> bound_twice [''self''] k = None \<Longrightarrow>
   delay E t a k apps w = (Inl (TaskNotBound (name t)), apps, w)"
  by (simp add: delay_def)

lemma delay_bound:
  "app t = Some r \<Longrightarrow> bound_twice [''self''] k = None \<Longrightarrow>
   delay E t a k apps w =
     (case submit_task E (apps r) t a k w of (res, ap', w') \<Rightarrow> (res, apps(r := ap'), w'))"
  by (auto simp: delay_def split: prod.splits)

lemma delay_reaches_executor:
  assumes "app t = Some r" "fst (delay E t a k apps w) = Inr f"
  shows "\<exists>s. scheduler (fst (snd (delay E t a k apps w)) r) = Some s
            \<and> accepted_jobs (executor s) =
                (case scheduler (apps r) of None \<Rightarrow> []
                 | Some s0 \<Rightarrow> accepted_jobs (executor s0))
                @ [run_job t a k]"
proof -
  have nk: "bound_twice [''self''] k = None"
    using assms by (cases "bound_twice [''self''] k") (auto simp: delay_def)
  obtain res ap' w' where st: "submit_task E (apps r) t a k w = (res, ap', w')"
    by (cases "submit_task E (apps r) t a k w") auto
  have d: "delay E t a k apps w = (res, apps(r := ap'), w')"
    using assms(1) nk st by (simp add: delay_def)
  then have "res = Inr f" using assms(2) by simp
  then show ?thesis
    using submit_task_accepted[of E "apps r" t a k w f ap' w'] st d by simp
qed

text \<open>
  C9. \<open>delay\<close> on a task whose \<open>app\<close> is \<open>None\<close> raises and changes nothing: it raises
  the \<open>RuntimeError\<close> that names the task, unless the call itself already failed on a
  keyword \<open>self\<close>. On a task bound to an application it is that application's
  \<open>submit_task\<close> on the task and the arguments, and when it returns a future the job is
  the last one accepted by the executor of that application's scheduler.
\<close>

theorem delay_requires_bound_task:
  "(app t = None \<longrightarrow>
      (\<exists>err. delay E t a k apps w = (Inl err, apps, w))
    \<and> (bound_twice [''self''] k = None \<longrightarrow>
          delay E t a k apps w = (Inl (TaskNotBound (name t)), apps, w)))
   \<and> (\<forall>key. bound_twice [''self''] k = Some key \<longrightarrow>
         delay E t a k apps w = (Inl (MultipleValues ''delay'' key), apps, w))
   \<and> (\<forall>r. app t = Some r \<and> bound_twice [''self''] k = None \<longrightarrow>
         delay E t a k apps w =
           (case submit_task E (apps r) t a k w of
              (res, ap', w') \<Rightarrow> (res, apps(r := ap'), w')))
   \<and> (\<forall>r f. app t = Some r \<and> fst (delay E t a k apps w) = Inr f \<longrightarrow>
         (\<exists>s. scheduler (fst (snd (delay E t a k apps w)) r) = Some s
            \<and> accepted_jobs (executor s) =
                (case scheduler (apps r) of None \<Rightarrow> []
                 | Some s0 \<Rightarrow> accepted_jobs (executor s0))
                @ [run_job t a k]))"
  using delay_unbound[of t E a k apps w] delay_unbound_error[of t k E a apps w]
    delay_self_keyword[of k _ E t a apps w] delay_bound[of t _ k E a apps w]
    delay_reaches_executor[of t _ E a k apps w]
  by blast

theorem delay_requires_bound_task_witness:
  "app hello = None
   \<and> fst (delay (quiet_env 0) hello [] [] (\<lambda>r. ChewyTask_init None None) world0)
       = Inl (TaskNotBound ''hello'')
   \<and> fst (delay (quiet_env 0) hello [] [(''task_id'', IntV 1)] (\<lambda>r. ChewyTask_init None None) world0)
       = Inl (TaskNotBound ''hello'')
   \<and> fst (delay (quiet_env 0) hello [] [(''self'', IntV 1)] (\<lambda>r. ChewyTask_init None None) world0)
       = Inl (MultipleValues ''delay'' ''self'')
   \<and> app bound_task = Some 0
   \<and> fst (delay (quiet_env 0) bound_task [] [] (\<lambda>r. ChewyTask_init None None) world0)
       = Inr (Future 0 (run_job bound_task [] []))
   \<and> map_option (\<lambda>s. accepted_jobs (executor s))
        (scheduler (fst (snd
           (delay (quiet_env 0) bound_task [] [] (\<lambda>r. ChewyTask_init None None) world0)) 0))
       = Some [run_job bound_task [] []]
   \<and> delay (quiet_env 0) bound_task [] [(''task'', IntV 1)] (\<lambda>r. ChewyTask_init None None) world0
       = (Inl (MultipleValues ''submit_task'' ''task''), \<lambda>r. ChewyTask_init None None, world0)"
  using delay_requires_bound_task
          [where t = hello and E = "quiet_env 0" and a = "[]" and k = "[]"
             and apps = "\<lambda>r. ChewyTask_init None None" and w = world0]
        delay_requires_bound_task
          [where t = hello and E = "quiet_env 0" and a = "[]" and k = "[(''task_id'', IntV 1)]"
             and apps = "\<lambda>r. ChewyTask_init None None" and w = world0]
        delay_requires_bound_task
          [where t = hello and E = "quiet_env 0" and a = "[]" and k = "[(''self'', IntV 1)]"
             and apps = "\<lambda>r. ChewyTask_init None None" and w = world0]
        delay_requires_bound_task
          [where t = bound_task and E = "quiet_env 0" and a = "[]" and k = "[]"
             and apps = "\<lambda>r. ChewyTask_init None None" and w = world0]
        delay_requires_bound_task
          [where t = bound_task and E = "quiet_env 0" and a = "[]" and k = "[(''task'', IntV 1)]"
             and apps = "\<lambda>r. ChewyTask_init None None" and w = world0]
  by (simp add: delay_def submit_task_def ensure_scheduler_initialized_def ChewyTask_init_def
        Scheduler_init_def submit_instant_task_def accepted_jobs_def
        submit_def start_def pool_new_def pool_submit_def logger_def Let_def run_job_def
        create_executor_def BaseExecutor_init_def quiet_env_def world0_def hello_def
        bound_task_def fun_upd_def)

subsection \<open>One entry of the registry\<close>

lemma tick_entry_remaining:
  "fst (snd (tick_entry E e ex w)) = snd (fst (is_due E e w))"
  by (auto simp: tick_entry_def Let_def split: prod.splits sum.splits)












subsection \<open>The sleep duration\<close>

lemma tick_entries_next_wake:
  "fst (snd (tick_entries E es nw ex w)) = foldl nearest_wake nw (map snd (evaluations E es ex w))"
proof (induction es arbitrary: nw ex w)
  case Nil
  then show ?case by simp
next
  case (Cons x es)
  obtain k e where x: "x = (k, e)" by (cases x)
  obtain e1 r ex1 w1 where te: "tick_entry E e ex w = (e1, r, ex1, w1)"
    by (cases "tick_entry E e ex w") auto
  have r: "r = snd (fst (is_due E e w))"
    using tick_entry_remaining[of E e ex w] te by simp
  show ?case
    using Cons.IH[of "nearest_wake nw r" ex1 w1] x te r
    by (auto split: prod.splits)
qed

lemma foldl_nearest_wake_Some:
  "foldl nearest_wake (Some n) rs = Some (Min (insert n (set rs)))"
proof (induction rs arbitrary: n)
  case Nil
  then show ?case by simp
next
  case (Cons r rs)
  have step: "nearest_wake (Some n) r = Some (min r n)"
    by (simp add: nearest_wake_def min_def)
  have "Min (insert (min r n) (set rs)) = Min (insert n (insert r (set rs)))"
  proof (cases "set rs = {}")
    case True
    then show ?thesis by (simp add: min.commute)
  next
    case False
    then show ?thesis by (simp add: min.assoc min.commute min.left_commute)
  qed
  then show ?case using Cons.IH[of "min r n"] step by simp
qed

lemma foldl_nearest_wake_None:
  "rs \<noteq> [] \<Longrightarrow> foldl nearest_wake None rs = Some (Min (set rs))"
  by (cases rs) (simp_all add: foldl_nearest_wake_Some nearest_wake_def)

lemma length_evaluations: "length (evaluations E es ex w) = length es"
  by (induction es arbitrary: ex w) (auto split: prod.splits)

lemma evaluations_positive:
  "\<forall>ke \<in> set es. 0 < interval (schedule (snd ke)) \<Longrightarrow>
   \<forall>d \<in> set (evaluations E es ex w). 0 < snd d"
proof (induction es arbitrary: ex w)
  case Nil
  then show ?case by simp
next
  case (Cons x es)
  obtain k e where x: "x = (k, e)" by (cases x)
  obtain e1 r ex1 w1 where te: "tick_entry E e ex w = (e1, r, ex1, w1)"
    by (cases "tick_entry E e ex w") auto
  have "0 < snd (fst (is_due E e w))"
    using Cons.prems x by (simp add: is_due_remaining_positive)
  moreover have "\<forall>d \<in> set (evaluations E es ex1 w1). 0 < snd d"
    using Cons.IH[of ex1 w1] Cons.prems by simp
  ultimately show ?case using x te by simp
qed

lemma tick_returns:
  "fst (tick E s w) =
     min (or_default (foldl nearest_wake None
            (map snd (evaluations E (scheduled_entries s) (executor s) w))) 1) 1"
  using tick_entries_next_wake[of E "scheduled_entries s" None "executor s" w]
  by (auto simp: tick_def Let_def split: prod.splits)

lemma is_due_steady_clock:
  "\<forall>n. time_at E n = now \<Longrightarrow> fst (is_due E e w) = fst (is_due E e w')"
  by (simp add: is_due_def time_time_def Let_def split: option.splits)

lemma evaluations_steady_clock:
  "\<forall>n. time_at E n = now \<Longrightarrow>
   evaluations E es ex w = map (\<lambda>ke. fst (is_due E (snd ke) w0)) es"
proof (induction es arbitrary: ex w)
  case Nil
  then show ?case by simp
next
  case (Cons x es)
  obtain k e where x: "x = (k, e)" by (cases x)
  obtain e1 r ex1 w1 where te: "tick_entry E e ex w = (e1, r, ex1, w1)"
    by (cases "tick_entry E e ex w") auto
  show ?case
    using Cons.IH[OF Cons.prems, of ex1 w1] x te is_due_steady_clock[OF Cons.prems, of e w w0]
    by simp
qed

text \<open>
  C4. For a registry of entries whose schedules satisfy the invariant of
  \<open>IntervalSchedule\<close> (a positive interval), \<open>tick\<close> returns 1 when the registry is empty
  and otherwise the minimum of 1 and the least remaining value that \<open>is_due\<close> reported
  when the loop reached each entry; while the clock stands still these are the remaining
  values of the entries at the start of the tick. With 0.4 and 3.0 remaining \<open>tick\<close>
  returns 0.4, with 5.0 and 8.0 it returns 1.
\<close>

theorem tick_sleep_duration:
  assumes "\<forall>ke \<in> set (scheduled_entries s). 0 < interval (schedule (snd ke))"
  shows "fst (tick E s w) =
     (if scheduled_entries s = [] then 1
      else min (Min (set (map snd (evaluations E (scheduled_entries s) (executor s) w)))) 1)
    \<and> ((\<forall>n. time_at E n = now) \<longrightarrow>
          map snd (evaluations E (scheduled_entries s) (executor s) w) =
            map (\<lambda>ke. snd (fst (is_due E (snd ke) w))) (scheduled_entries s))"
proof -
  have first: "fst (tick E s w) =
     (if scheduled_entries s = [] then 1
      else min (Min (set (map snd (evaluations E (scheduled_entries s) (executor s) w)))) 1)"
  proof (cases "scheduled_entries s = []")
    case True
    then show ?thesis by (simp add: tick_returns or_default_def)
  next
    case False
    let ?rs = "map snd (evaluations E (scheduled_entries s) (executor s) w)"
    have ne: "?rs \<noteq> []"
      using False length_evaluations[of E "scheduled_entries s" "executor s" w] by auto
    have pos: "\<forall>r \<in> set ?rs. 0 < r"
      using evaluations_positive[OF assms, of E "executor s" w] by auto
    have "Min (set ?rs) \<in> set ?rs"
      using ne by (intro Min_in) auto
    then have "Min (set ?rs) \<noteq> 0" using pos by force
    then show ?thesis
      using False ne by (simp add: tick_returns foldl_nearest_wake_None or_default_def)
  qed
  have second: "(\<forall>n. time_at E n = now) \<longrightarrow>
          map snd (evaluations E (scheduled_entries s) (executor s) w) =
            map (\<lambda>ke. snd (fst (is_due E (snd ke) w))) (scheduled_entries s)"
    using evaluations_steady_clock[of E now "scheduled_entries s" "executor s" w w] by simp
  show ?thesis using first second by blast
qed

lemma double_of_0_4: "double_of (2 / 5) = double_0_4"
  using double_of_eval[of "- 2" "2 / 5"]
  by (simp add: double_0_4_def round_half_even_def Let_def)

lemma float_registry_values:
  "float_add 0 (3602879701896397 / 9007199254740992) = 3602879701896397 / 9007199254740992"
  "float_sub (3602879701896397 / 9007199254740992) 0 = 3602879701896397 / 9007199254740992"
  "float_add 0 3 = 3" "float_sub 3 0 = 3"
  "float_add 99 6 = 105" "float_sub 105 100 = 5"
  "float_add 99 9 = 108" "float_sub 108 100 = 8"
  using double_of_dyadic[of 3602879701896397 53] double_of_dyadic[of 3 0]
    double_of_dyadic[of 105 0] double_of_dyadic[of 5 0]
    double_of_dyadic[of 108 0] double_of_dyadic[of 8 0]
  by (simp_all add: float_add_def float_sub_def)

text \<open>
  The three cases of C4 on the code's own arithmetic: 0.4 and 3.0 left, 5.0 and 8.0 left,
  and an empty registry. \<open>double_0_4\<close> is what Python reads the literal \<open>0.4\<close> as.
\<close>

theorem tick_sleep_duration_witness:
  "double_of (2 / 5) = double_0_4
   \<and> map snd (evaluations (quiet_env 0) registry_04_30 thread_executor world0) = [double_0_4, 3]
   \<and> fst (tick (quiet_env 0) (scheduler_of registry_04_30 []) world0) = double_0_4
   \<and> map snd (evaluations (quiet_env 100) registry_50_80 thread_executor world0) = [5, 8]
   \<and> fst (tick (quiet_env 100) (scheduler_of registry_50_80 []) world0) = 1
   \<and> fst (tick (quiet_env 100) (scheduler_of [] []) world0) = 1"
  using tick_sleep_duration [of "scheduler_of registry_04_30 []" "quiet_env 0" world0]
        tick_sleep_duration [of "scheduler_of registry_50_80 []" "quiet_env 100" world0]
        tick_sleep_duration [of "scheduler_of [] []" "quiet_env 100" world0]
        double_of_0_4
  by (simp add: registry_04_30_def registry_50_80_def entry_of_def TaskEntry_init_def
        scheduler_of_def thread_executor_def create_executor_def BaseExecutor_init_def
        tick_def tick_entry_def is_due_def time_time_def nearest_wake_def or_default_def
        quiet_env_def world0_def hello_def double_0_4_def float_registry_values Let_def)

text \<open>
  Without the invariant: \<open>next_wake or 1.0\<close> also replaces a least remaining value of
  exactly zero by the default, so \<open>tick\<close> then returns 1.
\<close>

theorem tick_returns_any_interval:
  "fst (tick E s w) =
     (if scheduled_entries s = [] then 1
      else if Min (set (map snd (evaluations E (scheduled_entries s) (executor s) w))) = 0 then 1
      else min (Min (set (map snd (evaluations E (scheduled_entries s) (executor s) w)))) 1)"
proof (cases "scheduled_entries s = []")
  case True
  then show ?thesis by (simp add: tick_returns or_default_def)
next
  case False
  then have "map snd (evaluations E (scheduled_entries s) (executor s) w) \<noteq> []"
    using length_evaluations[of E "scheduled_entries s" "executor s" w] by auto
  then show ?thesis
    using False by (simp add: tick_returns foldl_nearest_wake_None or_default_def)
qed

text \<open>
  C10. For a registry of entries with positive intervals, \<open>is_due\<close> reports a positive
  remaining value for each of them at any time (the interval when the entry is due), so
  every remaining value seen during a tick is positive and \<open>tick\<close> returns a sleep
  duration that is positive and at most 1.
\<close>

theorem tick_sleep_positive:
  assumes "\<forall>ke \<in> set (scheduled_entries s). 0 < interval (schedule (snd ke))"
  shows "0 < fst (tick E s w) \<and> fst (tick E s w) \<le> 1
    \<and> (\<forall>d \<in> set (evaluations E (scheduled_entries s) (executor s) w). 0 < snd d)
    \<and> (\<forall>ke \<in> set (scheduled_entries s). \<forall>w'.
          0 < snd (fst (is_due E (snd ke) w'))
        \<and> (fst (fst (is_due E (snd ke) w')) \<longrightarrow>
              snd (fst (is_due E (snd ke) w')) = interval (schedule (snd ke))))"
proof -
  let ?rs = "map snd (evaluations E (scheduled_entries s) (executor s) w)"
  have pos: "\<forall>d \<in> set (evaluations E (scheduled_entries s) (executor s) w). 0 < snd d"
    using evaluations_positive[OF assms, of E "executor s" w] .
  have "0 < or_default (foldl nearest_wake None ?rs) 1"
  proof (cases "?rs = []")
    case True
    then show ?thesis by (simp add: or_default_def)
  next
    case False
    then have "Min (set ?rs) \<in> set ?rs" by (intro Min_in) auto
    then have "0 < Min (set ?rs)" using pos by force
    then show ?thesis using False by (simp add: foldl_nearest_wake_None or_default_def)
  qed
  then have range: "0 < fst (tick E s w) \<and> fst (tick E s w) \<le> 1"
    by (simp add: tick_returns)
  have each: "\<forall>ke \<in> set (scheduled_entries s). \<forall>w'.
          0 < snd (fst (is_due E (snd ke) w'))
        \<and> (fst (fst (is_due E (snd ke) w')) \<longrightarrow>
              snd (fst (is_due E (snd ke) w')) = interval (schedule (snd ke)))"
    using assms by (auto simp: is_due_remaining_positive is_due_when_due)
  show ?thesis using range pos each by blast
qed

theorem tick_sleep_positive_witness:
  "0 < fst (tick (quiet_env 100) (scheduler_of registry_bad_hello []) world0)
   \<and> fst (tick (quiet_env 100) (scheduler_of registry_bad_hello []) world0) \<le> 1"
  using tick_sleep_positive [of "scheduler_of registry_bad_hello []" "quiet_env 100" world0]
  by (simp add: scheduler_of_def registry_bad_hello_def entry_of_def TaskEntry_init_def)

subsection \<open>Order of dispatch within a tick\<close>





end
